theory Spec2Isabelle
  imports Main "HOL-Library.AList"
begin

section \<open>Values that cross the program's boundary\<close>

text \<open>
  The script \<^verbatim>\<open>fetch-first-dui-data.py\<close> drives a remote job service through an HTTP
  client, an HTML parser, a browser page and the file system. Python values that come
  out of \<^verbatim>\<open>json.loads\<close> are modelled by \<open>json\<close>; \<open>JNull\<close> is Python's \<^verbatim>\<open>None\<close>, which
  is also what \<^verbatim>\<open>dict.get\<close> returns for a missing key. A dict is the list of its items
  (keys distinct, in insertion order). Numbers are integers: only their truth value
  (non-zero) is ever inspected.
\<close>

datatype json =
    JNull
  | JBool bool
  | JNum int
  | JStr string
  | JArr "json list"
  | JObj "(string \<times> json) list"

text \<open>Truth value of a Python object, as \<^verbatim>\<open>if x:\<close> and \<^verbatim>\<open>x or y\<close> test it.\<close>

fun truthy :: "json \<Rightarrow> bool" where
  "truthy JNull = False"
| "truthy (JBool b) = b"
| "truthy (JNum n) = (n \<noteq> 0)"
| "truthy (JStr s) = (s \<noteq> [])"
| "truthy (JArr xs) = (xs \<noteq> [])"
| "truthy (JObj kv) = (kv \<noteq> [])"

definition py_or :: "json \<Rightarrow> json \<Rightarrow> json" where
  "py_or a b = (if truthy a then a else b)"

definition dict_get :: "(string \<times> json) list \<Rightarrow> string \<Rightarrow> json" where
  "dict_get kv k = (case map_of kv k of None \<Rightarrow> JNull | Some v \<Rightarrow> v)"

text \<open>\<^verbatim>\<open>s.startswith(p)\<close>\<close>

definition startswith :: "string \<Rightarrow> string \<Rightarrow> bool" where
  "startswith s p = (take (length p) s = p)"

text \<open>
  A parsed HTML document as BeautifulSoup presents it: a tag has a (lower-case) name,
  a dict of attributes and children in document order.
\<close>

datatype node =
    Element string "(string \<times> string) list" "node list"
  | Text string

fun descendants :: "node \<Rightarrow> node list" where
  "descendants (Element t a cs) = concat (map (\<lambda>c. c # descendants c) cs)"
| "descendants (Text s) = []"

definition nodes_of :: "node list \<Rightarrow> node list" where
  "nodes_of doc = concat (map (\<lambda>c. c # descendants c) doc)"

fun tag_name :: "node \<Rightarrow> string option" where
  "tag_name (Element t a cs) = Some t"
| "tag_name (Text s) = None"

fun attr :: "node \<Rightarrow> string \<Rightarrow> string option" where
  "attr (Element t a cs) k = map_of a k"
| "attr (Text s) k = None"

text \<open>\<^verbatim>\<open>soup.find(tag, attrs={k: v})\<close>: the first matching tag in document order.\<close>

definition soup_find :: "node list \<Rightarrow> string \<Rightarrow> string \<Rightarrow> string \<Rightarrow> node option" where
  "soup_find doc t k v =
     List.find (\<lambda>n. tag_name n = Some t \<and> attr n k = Some v) (nodes_of doc)"

text \<open>\<^verbatim>\<open>tag.find_all([t1, t2])\<close>: every descendant tag with one of the names, in document order.\<close>

definition find_all :: "node \<Rightarrow> string list \<Rightarrow> node list" where
  "find_all n ts = filter (\<lambda>d. case tag_name d of None \<Rightarrow> False | Some t \<Rightarrow> t \<in> set ts) (descendants n)"

record response =
  resp_status :: int
  resp_body :: string

text \<open>
  A path built by \<^verbatim>\<open>OUTDIR / file\<close> is kept as the pair of the two operands.
\<close>

type_synonym path = "string \<times> string"

datatype exn =
    AttributeError
  | Raised string

text \<open>One constructor for each \<^verbatim>\<open>print\<close> of the script, with the values it interpolates.\<close>

datatype message =
    DebugPost nat string int
  | DebugPreviewPost string
  | FollowingSSO string
  | DebugPostRetry nat string int
  | DebugPreviewPostRetry string
  | SubmittingProgressForm string
  | DebugProgressForm int nat
  | CouldNotFind string
  | Saved path
  | FailedDownload string int
  | Processing string string
  | ErrorFor string exn

text \<open>
  Every call the script makes on its collaborators, with the arguments it passes:
  \<^verbatim>\<open>request_api.post(url, data=, headers=, timeout=)\<close>, \<^verbatim>\<open>request_api.get(url, headers=, timeout=)\<close>,
  \<^verbatim>\<open>page.set_content(html, wait_until="load")\<close>, \<^verbatim>\<open>page.goto(url, timeout=)\<close>,
  \<^verbatim>\<open>page.wait_for_selector(sel, timeout=)\<close>, \<^verbatim>\<open>handle.get_attribute(name)\<close>,
  \<^verbatim>\<open>page.evaluate(js)\<close>, \<^verbatim>\<open>open(path, "wb")\<close>, \<^verbatim>\<open>fh.write(bytes)\<close>, \<^verbatim>\<open>print\<close> and
  \<^verbatim>\<open>time.sleep\<close>.
\<close>

datatype event =
    Post string string "(string \<times> string) list" nat
  | Get string "(string \<times> string) list" nat
  | SetContent string
  | Goto string nat
  | WaitForSelector string nat
  | GetAttribute string
  | Evaluate string
  | OpenWrite path
  | Write path string
  | Print message
  | Sleep nat

text \<open>
  The collaborators. Each answer may depend on everything the script has done so far
  (the list of earlier calls), so the remote service, the browser and the disk are
  stateful. \<open>Inl\<close> (or \<open>Some\<close> for calls without a result) is a raised exception.
  The library functions \<^verbatim>\<open>str\<close>, \<^verbatim>\<open>urlencode\<close>, \<^verbatim>\<open>quote\<close>, \<^verbatim>\<open>json.loads\<close> (behind
  \<^verbatim>\<open>resp.json()\<close>; \<open>None\<close> when it raises) and the HTML parser are parameters too.
\<close>

record world =
  format_value :: "json \<Rightarrow> string"
  urlencode :: "(string \<times> string) list \<Rightarrow> string"
  quote :: "string \<Rightarrow> string"
  json_loads :: "string \<Rightarrow> json option"
  html_parser :: "string \<Rightarrow> node list"
  http :: "event list \<Rightarrow> event \<Rightarrow> exn + response"
  page_do :: "event list \<Rightarrow> event \<Rightarrow> exn option"
  page_query :: "event list \<Rightarrow> event \<Rightarrow> exn + string option"
  fs :: "event list \<Rightarrow> event \<Rightarrow> exn option"

section \<open>Effects\<close>

text \<open>
  A piece of the script, run after the calls \<open>tr\<close>, yields the calls it makes itself
  (in order) and either the exception that leaves it or its value.
\<close>

type_synonym 'a prog = "event list \<Rightarrow> event list \<times> (exn + 'a)"

definition ret :: "'a \<Rightarrow> 'a prog" where
  "ret x tr = ([], Inr x)"

definition throw :: "exn \<Rightarrow> 'a prog" where
  "throw e tr = ([], Inl e)"

definition seq :: "'a prog \<Rightarrow> ('a \<Rightarrow> 'b prog) \<Rightarrow> 'b prog" where
  "seq m f tr =
     (case m tr of
        (evs, Inl e) \<Rightarrow> (evs, Inl e)
      | (evs, Inr x) \<Rightarrow> (case f x (tr @ evs) of (evs', r) \<Rightarrow> (evs @ evs', r)))"

text \<open>\<^verbatim>\<open>try: m  except Exception as e: h\<close>\<close>

definition attempt :: "'a prog \<Rightarrow> (exn \<Rightarrow> 'a prog) \<Rightarrow> 'a prog" where
  "attempt m h tr =
     (case m tr of
        (evs, Inl e) \<Rightarrow> (case h e (tr @ evs) of (evs', r) \<Rightarrow> (evs @ evs', r))
      | (evs, Inr x) \<Rightarrow> (evs, Inr x))"

definition emit :: "event \<Rightarrow> unit prog" where
  "emit e tr = ([e], Inr ())"

definition request :: "world \<Rightarrow> event \<Rightarrow> response prog" where
  "request w e tr = ([e], http w tr e)"

definition page_cmd :: "world \<Rightarrow> event \<Rightarrow> unit prog" where
  "page_cmd w e tr = ([e], case page_do w tr e of Some x \<Rightarrow> Inl x | None \<Rightarrow> Inr ())"

definition page_ask :: "world \<Rightarrow> event \<Rightarrow> string option prog" where
  "page_ask w e tr = ([e], page_query w tr e)"

definition file_op :: "world \<Rightarrow> event \<Rightarrow> unit prog" where
  "file_op w e tr = ([e], case fs w tr e of Some x \<Rightarrow> Inl x | None \<Rightarrow> Inr ())"

section \<open>Constants of the script\<close>

definition OUTDIR :: string where
  "OUTDIR = ''scraped''"

definition SAS_URL :: string where
  "SAS_URL = ''https://cdan.dot.gov/SASJobExecution/?sso_guest=true''"

definition QUERY_URL :: string where
  "QUERY_URL = ''https://cdan.dot.gov/query''"

definition PROGRAM :: string where
  "PROGRAM = ''/Public/OTRA/Apps/FIRST/FIRST''"

definition APPHOST :: string where
  "APPHOST = ''cdan.dot.gov''"

definition BASE :: string where
  "BASE = ''https://cdan.dot.gov''"

definition XLSX_SELECTOR :: string where
  \<open>XLSX_SELECTOR = ''a[download$=".xlsx"], a[href$=".xlsx"], a[href*="/files/files/"]''\<close>

definition XLSX_SCRIPT :: string where
  \<open>XLSX_SCRIPT = ''() => { const a = document.querySelector('a[download$=".xlsx"], a[href$=".xlsx"], a[href*="/files/files/"]'); return a ? a.getAttribute('href') : null }''\<close>

section \<open>\<^verbatim>\<open>post_query_and_download\<close>\<close>

subsection \<open>The job request (lines 46 to 66)\<close>

definition sas_query :: "string \<Rightarrow> string" where
  "sas_query sid =
     ''&topic_num=26&metric_num=33&metrictype_num=37''
     @ ''&CrashYear=2010,2011,2012,2013,2014,2015,2016,2017,2018,2019,2020,2021,2022,2023,''
     @ ''&State='' @ sid @ ''&A_PTYPE=1&DRIMPAIR_A=9&TableRows=YEAR&TableCols=MONTH''
     @ ''&ReleaseDate=Version 9.2.1, released Nov 13, 2025&ReportType=1&Criteria=Years: 2010-2023''"

definition job_data :: "world \<Rightarrow> json \<Rightarrow> (string \<times> string) list" where
  "job_data w sid =
     [(''SASQueryString'', sas_query (format_value w sid)),
      (''_program'', PROGRAM),
      (''_apphostname'', APPHOST)]"

definition job_headers :: "(string \<times> string) list" where
  "job_headers =
     [(''x-requested-with'', ''XMLHttpRequest''),
      (''referer'', QUERY_URL),
      (''origin'', ''https://cdan.dot.gov''),
      (''accept'', ''*/*''),
      (''content-type'', ''application/x-www-form-urlencoded'')]"

text \<open>The headers of the re-authentication GET and of the artifact GET.\<close>

definition nav_headers :: "(string \<times> string) list" where
  "nav_headers = [(''referer'', QUERY_URL), (''origin'', ''https://cdan.dot.gov'')]"

text \<open>The headers of the ProgressForm submission.\<close>

definition form_headers :: "(string \<times> string) list" where
  "form_headers =
     [(''referer'', QUERY_URL),
      (''origin'', ''https://cdan.dot.gov''),
      (''content-type'', ''application/x-www-form-urlencoded'')]"

text \<open>\<^verbatim>\<open>text[:400].replace('\n', '\\n')\<close>\<close>

definition preview :: "string \<Rightarrow> string" where
  "preview t = concat (map (\<lambda>c. if c = CHR 0x0A then [CHR 0x5C, CHR ''n''] else [c]) (take 400 t))"

subsection \<open>The 449 response (lines 74 to 88)\<close>

text \<open>
  Lines 75 to 79: \<^verbatim>\<open>resp.json()\<close> raising, or \<^verbatim>\<open>j.get\<close> failing because \<open>j\<close> is no dict,
  both end in \<^verbatim>\<open>uri = None\<close>.
\<close>

definition challenge_uri :: "world \<Rightarrow> response \<Rightarrow> json" where
  "challenge_uri w resp =
     (case json_loads w (resp_body resp) of
        None \<Rightarrow> JNull
      | Some j \<Rightarrow>
          (case j of
             JObj kv \<Rightarrow> py_or (py_or (dict_get kv ''uri'') (dict_get kv ''URI'')) (dict_get kv ''uri'')
           | _ \<Rightarrow> JNull))"

text \<open>
  Line 81 calls \<^verbatim>\<open>uri.startswith\<close>, outside the \<^verbatim>\<open>try\<close>: a truthy \<open>uri\<close> that is no string
  raises AttributeError.
\<close>

definition handle_challenge :: "world \<Rightarrow> string \<Rightarrow> string \<Rightarrow> response \<Rightarrow> response prog" where
  "handle_challenge w body name resp =
     (if resp_status resp = 449 then
        (let uri = challenge_uri w resp in
         if truthy uri then
           (case uri of
              JStr u \<Rightarrow>
                (let auth_url = (if startswith u ''http'' then u else BASE @ u) in
                 seq (emit (Print (FollowingSSO auth_url))) (\<lambda>_.
                 seq (request w (Get auth_url nav_headers 60000)) (\<lambda>_.
                 seq (request w (Post SAS_URL body job_headers 60000)) (\<lambda>resp'.
                 seq (emit (Print (DebugPostRetry (length (resp_body resp')) name (resp_status resp')))) (\<lambda>_.
                 seq (emit (Print (DebugPreviewPostRetry (preview (resp_body resp'))))) (\<lambda>_.
                 ret resp'))))))
            | _ \<Rightarrow> throw AttributeError)
         else ret resp)
      else ret resp)"

subsection \<open>The ProgressForm (lines 90 to 110)\<close>

text \<open>Line 93. A tag is always truthy, so \<^verbatim>\<open>or\<close> falls through only on \<^verbatim>\<open>None\<close>.\<close>

definition find_progress_form :: "node list \<Rightarrow> node option" where
  "find_progress_form soup =
     (case soup_find soup ''form'' ''name'' ''ProgressForm'' of
        Some f \<Rightarrow> Some f
      | None \<Rightarrow> soup_find soup ''form'' ''id'' ''ProgressForm'')"

text \<open>Lines 95 to 97.\<close>

definition form_action :: "node \<Rightarrow> string" where
  "form_action form =
     (let action = (case attr form ''action'' of
                      None \<Rightarrow> SAS_URL
                    | Some a \<Rightarrow> if a = [] then SAS_URL else a)
      in if startswith action ''/'' then BASE @ action else action)"

text \<open>
  Lines 98 to 103: \<open>inputs\<close> is a dict, so a name that comes again replaces the value
  stored under it and keeps its place.
\<close>

definition form_inputs :: "node \<Rightarrow> (string \<times> string) list" where
  "form_inputs form =
     foldl (\<lambda>inputs inp.
              case attr inp ''name'' of
                None \<Rightarrow> inputs
              | Some namei \<Rightarrow>
                  if namei = [] then inputs
                  else AList.update namei (case attr inp ''value'' of None \<Rightarrow> [] | Some v \<Rightarrow> v) inputs)
           [] (find_all form [''input'', ''textarea''])"

definition resolve_progress_form :: "world \<Rightarrow> string \<Rightarrow> string prog" where
  "resolve_progress_form w txt =
     (case find_progress_form (html_parser w txt) of
        Some form \<Rightarrow>
          (let action = form_action form;
               body2 = urlencode w (form_inputs form) in
           seq (emit (Print (SubmittingProgressForm action))) (\<lambda>_.
           seq (request w (Post action body2 form_headers 60000)) (\<lambda>resp2.
           seq (emit (Print (DebugProgressForm (resp_status resp2) (length (resp_body resp2))))) (\<lambda>_.
           ret (resp_body resp2)))))
      | None \<Rightarrow> ret txt)"

subsection \<open>The rendered page and its link (lines 112 to 134)\<close>

definition load_page :: "world \<Rightarrow> string \<Rightarrow> unit prog" where
  "load_page w page_html =
     attempt (page_cmd w (SetContent page_html))
       (\<lambda>e. page_cmd w (Goto (''data:text/html,'' @ quote w page_html) 60000))"

definition find_link :: "world \<Rightarrow> string option prog" where
  "find_link w =
     attempt
       (seq (page_cmd w (WaitForSelector XLSX_SELECTOR 180000)) (\<lambda>_.
        page_ask w (GetAttribute ''href'')))
       (\<lambda>e. attempt (page_ask w (Evaluate XLSX_SCRIPT)) (\<lambda>e'. ret None))"

subsection \<open>The artifact (lines 137 to 155)\<close>

definition normalize_link :: "string \<Rightarrow> string" where
  "normalize_link link =
     (if startswith link ''/'' then BASE @ link
      else if startswith link ''http'' then link
      else BASE @ ''/'' @ link)"

definition outpath :: "string \<Rightarrow> path" where
  "outpath name = (OUTDIR, name @ ''-dui-data.xlsx'')"

definition fetch_artifact :: "world \<Rightarrow> string \<Rightarrow> string \<Rightarrow> bool prog" where
  "fetch_artifact w name link =
     (let url = normalize_link link in
      seq (request w (Get url nav_headers 120000)) (\<lambda>r2.
      if resp_status r2 = 200 then
        (let bodybytes = resp_body r2 in
         seq (file_op w (OpenWrite (outpath name))) (\<lambda>_.
         seq (file_op w (Write (outpath name) bodybytes)) (\<lambda>_.
         seq (emit (Print (Saved (outpath name)))) (\<lambda>_.
         ret True))))
      else
        seq (emit (Print (FailedDownload name (resp_status r2)))) (\<lambda>_.
        ret False)))"

subsection \<open>The whole function\<close>

text \<open>Lines 132 to 155: \<^verbatim>\<open>if not link\<close> holds for \<^verbatim>\<open>None\<close> and for the empty string.\<close>

definition download_link :: "world \<Rightarrow> string \<Rightarrow> string option \<Rightarrow> bool prog" where
  "download_link w name link =
     (case link of
        None \<Rightarrow> seq (emit (Print (CouldNotFind name))) (\<lambda>_. ret False)
      | Some l \<Rightarrow>
          if l = [] then seq (emit (Print (CouldNotFind name))) (\<lambda>_. ret False)
          else fetch_artifact w name l)"

text \<open>Lines 121 to 155: what happens once the page is loaded.\<close>

definition locate_and_download :: "world \<Rightarrow> string \<Rightarrow> bool prog" where
  "locate_and_download w name = seq (find_link w) (\<lambda>link. download_link w name link)"

text \<open>Lines 90 to 155: what happens to the text of the submission's response.\<close>

definition after_submission :: "world \<Rightarrow> string \<Rightarrow> string \<Rightarrow> bool prog" where
  "after_submission w name txt =
     seq (resolve_progress_form w txt) (\<lambda>page_html.
     seq (load_page w page_html) (\<lambda>_.
     locate_and_download w name))"

definition post_query_and_download :: "world \<Rightarrow> json \<Rightarrow> string \<Rightarrow> bool prog" where
  "post_query_and_download w sid name =
     (let body = urlencode w (job_data w sid) in
      seq (request w (Post SAS_URL body job_headers 60000)) (\<lambda>resp.
      seq (emit (Print (DebugPost (length (resp_body resp)) name (resp_status resp)))) (\<lambda>_.
      seq (emit (Print (DebugPreviewPost (preview (resp_body resp))))) (\<lambda>_.
      seq (handle_challenge w body name resp) (\<lambda>resp.
      after_submission w name (resp_body resp))))))"

section \<open>The loop of \<^verbatim>\<open>main\<close> (lines 167 to 175)\<close>

text \<open>Line 169: \<^verbatim>\<open>.replace("/", "-")\<close>\<close>

definition sanitize :: "string \<Rightarrow> string" where
  "sanitize n = map (\<lambda>c. if c = CHR ''/'' then CHR ''-'' else c) n"

text \<open>
  Lines 168 and 169, \<^verbatim>\<open>s.get("Id")\<close> and \<^verbatim>\<open>s.get("StateName", "unknown").replace("/", "-")\<close>,
  run before the \<^verbatim>\<open>try\<close>: an entry that is no dict, or whose StateName is no string,
  raises AttributeError out of the loop.
\<close>

definition state_id :: "json \<Rightarrow> exn + json" where
  "state_id s = (case s of JObj kv \<Rightarrow> Inr (dict_get kv ''Id'') | _ \<Rightarrow> Inl AttributeError)"

definition state_name :: "json \<Rightarrow> exn + string" where
  "state_name s =
     (case s of
        JObj kv \<Rightarrow>
          (case (case map_of kv ''StateName'' of None \<Rightarrow> JStr ''unknown'' | Some v \<Rightarrow> v) of
             JStr n \<Rightarrow> Inr (sanitize n)
           | _ \<Rightarrow> Inl AttributeError)
      | _ \<Rightarrow> Inl AttributeError)"

definition process_state :: "world \<Rightarrow> json \<Rightarrow> unit prog" where
  "process_state w s =
     (case state_id s of
        Inl e \<Rightarrow> throw e
      | Inr sid \<Rightarrow>
          (case state_name s of
             Inl e \<Rightarrow> throw e
           | Inr name \<Rightarrow>
               seq (emit (Print (Processing (format_value w sid) name))) (\<lambda>_.
               seq (attempt (seq (post_query_and_download w sid name) (\<lambda>ok. ret ()))
                      (\<lambda>e. emit (Print (ErrorFor name e)))) (\<lambda>_.
               emit (Sleep 1)))))"


section \<open>Reading a run\<close>

text \<open>
  The calls of a run are told apart by what the script passes: the job request goes to
  \<open>SAS_URL\<close> with \<open>job_headers\<close>, the re-authentication GET has a timeout of 60000 and
  the artifact GET one of 120000.
\<close>

fun is_request :: "event \<Rightarrow> bool" where
  "is_request (Post u b h t) = True"
| "is_request (Get u h t) = True"
| "is_request e = False"

fun is_reauth_get :: "event \<Rightarrow> bool" where
  "is_reauth_get (Get u h t) = (h = nav_headers \<and> t = 60000)"
| "is_reauth_get e = False"

fun is_artifact_get :: "event \<Rightarrow> bool" where
  "is_artifact_get (Get u h t) = (h = nav_headers \<and> t = 120000)"
| "is_artifact_get e = False"

fun is_job_post :: "event \<Rightarrow> bool" where
  "is_job_post (Post u b h t) = (u = SAS_URL \<and> h = job_headers)"
| "is_job_post e = False"


fun is_file_event :: "event \<Rightarrow> bool" where
  "is_file_event (OpenWrite p) = True"
| "is_file_event (Write p b) = True"
| "is_file_event e = False"


text \<open>The messages that only the loop of \<^verbatim>\<open>main\<close> prints.\<close>

fun loop_message :: "message \<Rightarrow> bool" where
  "loop_message (Processing sid name) = True"
| "loop_message (ErrorFor name e) = True"
| "loop_message m = False"

text \<open>Every call a piece of the script makes satisfies \<open>P\<close>, whatever happened before.\<close>

definition emits :: "(event \<Rightarrow> bool) \<Rightarrow> 'a prog \<Rightarrow> bool" where
  "emits P m = (\<forall>tr. list_all P (fst (m tr)))"






section \<open>Example collaborators\<close>

text \<open>
  \<open>plain_urlencode\<close> joins \<^verbatim>\<open>key=value\<close> pairs with \<^verbatim>\<open>&\<close>, as \<^verbatim>\<open>urlencode\<close> does for keys
  and values of unreserved characters. In \<open>calm_world\<close> every request is answered with
  status 200, the page shows the anchor \<^verbatim>\<open>/files/files/ca.xlsx\<close> and the disk accepts
  every write.
\<close>

fun join_amp :: "string list \<Rightarrow> string" where
  "join_amp [] = []"
| "join_amp [x] = x"
| "join_amp (x # y # ys) = x @ ''&'' @ join_amp (y # ys)"

definition plain_urlencode :: "(string \<times> string) list \<Rightarrow> string" where
  "plain_urlencode kv = join_amp (map (\<lambda>(k, v). k @ ''='' @ v) kv)"

definition plain_str :: "json \<Rightarrow> string" where
  "plain_str j = (case j of JStr s \<Rightarrow> s | _ \<Rightarrow> ''None'')"

definition calm_world :: world where
  "calm_world =
     \<lparr> format_value = plain_str,
       urlencode = plain_urlencode,
       quote = (\<lambda>s. s),
       json_loads = (\<lambda>s. None),
       html_parser = (\<lambda>s. []),
       http = (\<lambda>tr e. Inr \<lparr> resp_status = 200, resp_body = ''PK'' \<rparr>),
       page_do = (\<lambda>tr e. None),
       page_query = (\<lambda>tr e. Inr (Some ''/files/files/ca.xlsx'')),
       fs = (\<lambda>tr e. None) \<rparr>"



definition timeout_page :: "event list \<Rightarrow> event \<Rightarrow> exn option" where
  "timeout_page tr e = (case e of WaitForSelector s t \<Rightarrow> Some (Raised ''TimeoutError'') | _ \<Rightarrow> None)"



text \<open>
  \<open>html449_world\<close> answers the job submission with status 449 and a body that is no JSON;
  the page rendered from it shows the anchor.
\<close>

definition html449_body :: string where
  "html449_body = ''<a href=/files/files/ca.xlsx>report</a>''"

definition html449_http :: "event list \<Rightarrow> event \<Rightarrow> exn + response" where
  "html449_http tr e =
     (case e of
        Post u b h t \<Rightarrow> Inr \<lparr> resp_status = 449, resp_body = html449_body \<rparr>
      | _ \<Rightarrow> Inr \<lparr> resp_status = 200, resp_body = ''PK'' \<rparr>)"

definition html449_world :: world where
  "html449_world = calm_world \<lparr> http := html449_http \<rparr>"

text \<open>
  In \<open>late_anchor_world\<close> the wait for the selector runs into its timeout and the query
  made afterwards finds the anchor; in \<open>no_anchor_world\<close> that query finds nothing.
\<close>

definition late_anchor_world :: world where
  "late_anchor_world = calm_world \<lparr> page_do := timeout_page \<rparr>"

definition no_anchor_world :: world where
  "no_anchor_world = calm_world \<lparr> page_do := timeout_page, page_query := (\<lambda>tr e. Inr None) \<rparr>"



definition california :: json where
  "california = JObj [(''Id'', JStr ''06''), (''StateName'', JStr ''California'')]"

text \<open>
  Three pages with a ProgressForm: one without an action, one found by its id with an
  action on the same host, one with two inputs of the same name. \<open>form_world\<close> parses
  them and answers every POST with the first page again.
\<close>

definition plain_page :: string where
  "plain_page = ''<form name=ProgressForm><input type=hidden name=_sessionid value=abc><textarea name=note>hello</textarea><input type=submit></form>''"

definition plain_form :: node where
  "plain_form =
     Element ''form'' [(''name'', ''ProgressForm'')]
       [Element ''input'' [(''type'', ''hidden''), (''name'', ''_sessionid''), (''value'', ''abc'')] [],
        Element ''textarea'' [(''name'', ''note'')] [Text ''hello''],
        Element ''input'' [(''type'', ''submit'')] []]"

definition routed_page :: string where
  "routed_page = ''<div><form id=ProgressForm action=/SASJobExecution/><input name=_sessionid value=abc><input name=_program value=FIRST></form></div>''"

definition routed_form :: node where
  "routed_form =
     Element ''form'' [(''id'', ''ProgressForm''), (''action'', ''/SASJobExecution/'')]
       [Element ''input'' [(''name'', ''_sessionid''), (''value'', ''abc'')] [],
        Element ''input'' [(''name'', ''_program''), (''value'', ''FIRST'')] []]"

definition radio_page :: string where
  "radio_page = ''<form name=ProgressForm action=/SASJobExecution/><input name=a value=1><input name=a value=2></form>''"

definition radio_form :: node where
  "radio_form =
     Element ''form'' [(''name'', ''ProgressForm''), (''action'', ''/SASJobExecution/'')]
       [Element ''input'' [(''name'', ''a''), (''value'', ''1'')] [],
        Element ''input'' [(''name'', ''a''), (''value'', ''2'')] []]"

definition form_parser :: "string \<Rightarrow> node list" where
  "form_parser s =
     (if s = plain_page then [plain_form]
      else if s = routed_page then [Element ''div'' [] [routed_form]]
      else if s = radio_page then [radio_form]
      else [])"

definition form_http :: "event list \<Rightarrow> event \<Rightarrow> exn + response" where
  "form_http tr e =
     (case e of
        Post u b h t \<Rightarrow> Inr \<lparr> resp_status = 200, resp_body = plain_page \<rparr>
      | _ \<Rightarrow> Inr \<lparr> resp_status = 200, resp_body = ''PK'' \<rparr>)"

definition form_world :: world where
  "form_world = calm_world \<lparr> html_parser := form_parser, http := form_http \<rparr>"

text \<open>\<open>result_world\<close> parses a result page that holds a search form and the anchor.\<close>

definition result_page :: string where
  "result_page = ''<form name=search></form><a href=/files/files/ca.xlsx>report</a>''"

definition result_parser :: "string \<Rightarrow> node list" where
  "result_parser s =
     (if s = result_page
      then [Element ''form'' [(''name'', ''search'')] [],
            Element ''a'' [(''href'', ''/files/files/ca.xlsx'')] [Text ''report'']]
      else [])"

definition result_world :: world where
  "result_world = calm_world \<lparr> html_parser := result_parser \<rparr>"

section \<open>Rules for runs\<close>

lemma fst_seq: "fst (seq m f tr) = fst (m tr) @ (case snd (m tr) of Inl e \<Rightarrow> [] | Inr x \<Rightarrow> fst (f x (tr @ fst (m tr))))"
  by (simp add: seq_def split: prod.splits sum.splits)

lemma snd_seq: "snd (seq m f tr) = (case snd (m tr) of Inl e \<Rightarrow> Inl e | Inr x \<Rightarrow> snd (f x (tr @ fst (m tr))))"
  by (simp add: seq_def split: prod.splits sum.splits)

lemma fst_attempt: "fst (attempt m h tr) = fst (m tr) @ (case snd (m tr) of Inl e \<Rightarrow> fst (h e (tr @ fst (m tr))) | Inr x \<Rightarrow> [])"
  by (simp add: attempt_def split: prod.splits sum.splits)

lemma snd_attempt: "snd (attempt m h tr) = (case snd (m tr) of Inl e \<Rightarrow> snd (h e (tr @ fst (m tr))) | Inr x \<Rightarrow> Inr x)"
  by (simp add: attempt_def split: prod.splits sum.splits)

lemmas run_simps = fst_seq snd_seq fst_attempt snd_attempt ret_def throw_def emit_def request_def
  page_cmd_def page_ask_def file_op_def

lemma emits_ret: "emits P (ret x)"
  by (simp add: emits_def ret_def)
lemma emits_throw: "emits P (throw x)"
  by (simp add: emits_def throw_def)
lemma emits_emit: "P e \<Longrightarrow> emits P (emit e)"
  by (simp add: emits_def emit_def)
lemma emits_request: "P e \<Longrightarrow> emits P (request w e)"
  by (simp add: emits_def request_def)
lemma emits_page_cmd: "P e \<Longrightarrow> emits P (page_cmd w e)"
  by (simp add: emits_def page_cmd_def)
lemma emits_page_ask: "P e \<Longrightarrow> emits P (page_ask w e)"
  by (simp add: emits_def page_ask_def)
lemma emits_file_op: "P e \<Longrightarrow> emits P (file_op w e)"
  by (simp add: emits_def file_op_def)
lemma emits_seq: "emits P m \<Longrightarrow> (\<And>x. emits P (f x)) \<Longrightarrow> emits P (seq m f)"
  by (simp add: emits_def fst_seq split: sum.splits)
lemma emits_attempt: "emits P m \<Longrightarrow> (\<And>x. emits P (h x)) \<Longrightarrow> emits P (attempt m h)"
  by (auto simp add: emits_def attempt_def split: sum.splits prod.splits) (metis fst_conv)+

lemmas emits_intros = emits_ret emits_throw emits_emit emits_request emits_page_cmd emits_page_ask
  emits_file_op emits_seq emits_attempt

lemma emits_handle_challenge:
  assumes "\<And>m. \<not> loop_message m \<Longrightarrow> P (Print m)" "\<And>u. P (Get u nav_headers 60000)" "P (Post SAS_URL body job_headers 60000)"
  shows "emits P (handle_challenge w body name resp)"
  unfolding handle_challenge_def Let_def
  by (auto intro!: emits_intros assms split: json.splits)

lemma emits_resolve_progress_form:
  assumes "\<And>m. \<not> loop_message m \<Longrightarrow> P (Print m)" "\<And>u b. P (Post u b form_headers 60000)"
  shows "emits P (resolve_progress_form w txt)"
  unfolding resolve_progress_form_def Let_def
  by (auto intro!: emits_intros assms split: option.splits)

lemma emits_load_page:
  assumes "\<And>h. P (SetContent h)" "\<And>u t. P (Goto u t)"
  shows "emits P (load_page w page_html)"
  unfolding load_page_def
  by (auto intro!: emits_intros assms)

lemma emits_find_link:
  assumes "\<And>s t. P (WaitForSelector s t)" "\<And>a. P (GetAttribute a)" "\<And>s. P (Evaluate s)"
  shows "emits P (find_link w)"
  unfolding find_link_def
  by (auto intro!: emits_intros assms)

lemma emits_fetch_artifact:
  assumes "\<And>m. \<not> loop_message m \<Longrightarrow> P (Print m)" "\<And>u. P (Get u nav_headers 120000)" "\<And>p. P (OpenWrite p)" "\<And>p b. P (Write p b)"
  shows "emits P (fetch_artifact w name link)"
  unfolding fetch_artifact_def Let_def
  by (auto intro!: emits_intros assms)

lemma emits_download_link:
  assumes "\<And>m. \<not> loop_message m \<Longrightarrow> P (Print m)" "\<And>u. P (Get u nav_headers 120000)" "\<And>p. P (OpenWrite p)" "\<And>p b. P (Write p b)"
  shows "emits P (download_link w name link)"
  unfolding download_link_def
  by (auto intro!: emits_intros emits_fetch_artifact assms split: option.splits)

lemma startswith_slash_not_http: "startswith link ''http'' \<Longrightarrow> \<not> startswith link ''/''"
  by (cases link) (auto simp: startswith_def)

lemma fetch_artifact_requests:
  "filter is_request (fst (fetch_artifact w name link tr)) = [Get (normalize_link link) nav_headers 120000]"
  by (simp add: fetch_artifact_def Let_def run_simps split: sum.splits option.splits)

lemma find_progress_form_None:
  assumes "\<forall>n \<in> set (nodes_of soup).
             \<not> (tag_name n = Some ''form'' \<and> (attr n ''name'' = Some ''ProgressForm'' \<or> attr n ''id'' = Some ''ProgressForm''))"
  shows "find_progress_form soup = None"
  using assms by (auto simp: find_progress_form_def soup_find_def find_None_iff split: option.splits)

lemma resolve_progress_form_requests:
  assumes "find_progress_form (html_parser w txt) = Some form"
  shows "filter is_request (fst (resolve_progress_form w txt tr))
           = [Post (form_action form) (urlencode w (form_inputs form)) form_headers 60000]"
  using assms
  by (simp add: resolve_progress_form_def Let_def run_simps split: sum.splits)

lemma post_query_first_event:
  "\<exists>evs. fst (post_query_and_download w sid name tr)
            = Post SAS_URL (urlencode w (job_data w sid)) job_headers 60000 # evs"
  by (simp add: post_query_and_download_def Let_def run_simps split: sum.splits)

lemma emits_locate_and_download:
  assumes "\<And>m. \<not> loop_message m \<Longrightarrow> P (Print m)" "\<And>u. P (Get u nav_headers 120000)" "\<And>p. P (OpenWrite p)" "\<And>p b. P (Write p b)"
    "\<And>s t. P (WaitForSelector s t)" "\<And>a. P (GetAttribute a)" "\<And>s. P (Evaluate s)"
  shows "emits P (locate_and_download w name)"
  unfolding locate_and_download_def
  by (intro emits_seq emits_find_link emits_download_link assms)

lemma emits_after_submission:
  assumes "\<And>m. \<not> loop_message m \<Longrightarrow> P (Print m)" "\<And>u. P (Get u nav_headers 120000)" "\<And>p. P (OpenWrite p)" "\<And>p b. P (Write p b)"
    "\<And>s t. P (WaitForSelector s t)" "\<And>a. P (GetAttribute a)" "\<And>s. P (Evaluate s)"
    "\<And>h. P (SetContent h)" "\<And>u t. P (Goto u t)" "\<And>u b. P (Post u b form_headers 60000)"
  shows "emits P (after_submission w name txt)"
  unfolding after_submission_def
  by (intro emits_seq emits_resolve_progress_form emits_load_page emits_locate_and_download assms)


lemma emits_filter: "emits (\<lambda>e. \<not> P e) m \<Longrightarrow> filter P (fst (m tr)) = []"
  by (auto simp: emits_def list_all_iff filter_empty_conv)

lemma headers_distinct: "job_headers \<noteq> form_headers" "form_headers \<noteq> job_headers"
  by (simp_all add: job_headers_def form_headers_def)

lemma after_submission_no_reauth: "filter is_reauth_get (fst (after_submission w name txt tr)) = []"
  by (rule emits_filter, rule emits_after_submission) simp_all

lemma after_submission_no_job_post: "filter is_job_post (fst (after_submission w name txt tr)) = []"
  by (rule emits_filter, rule emits_after_submission) (simp_all add: headers_distinct)

lemma seq_outcome:
  assumes "emits P m"
      and "\<And>x tr'. Q (fst (f x tr')) (snd (f x tr'))"
      and "\<And>pre evs r. list_all P pre \<Longrightarrow> Q evs r \<Longrightarrow> Q (pre @ evs) r"
      and "\<And>pre e. list_all P pre \<Longrightarrow> Q pre (Inl e)"
  shows "Q (fst (seq m f tr)) (snd (seq m f tr))"
proof (cases "snd (m tr)")
  case (Inl e)
  with assms(1) assms(4) [of "fst (m tr)" e] show ?thesis
    by (simp add: fst_seq snd_seq emits_def)
next
  case (Inr x)
  with assms(1) assms(3) [OF _ assms(2) [of x "tr @ fst (m tr)"], of "fst (m tr)"] show ?thesis
    by (simp add: fst_seq snd_seq emits_def)
qed

lemma post_query_and_download_outcome:
  assumes pre: "\<And>m. P (Print m)" "\<And>u b h. P (Post u b h 60000)" "\<And>u. P (Get u nav_headers 60000)"
               "\<And>h. P (SetContent h)" "\<And>u t. P (Goto u t)"
      and fin: "\<And>tr'. Q (fst (locate_and_download w name tr')) (snd (locate_and_download w name tr'))"
      and app: "\<And>pre evs r. list_all P pre \<Longrightarrow> Q evs r \<Longrightarrow> Q (pre @ evs) r"
      and exc: "\<And>pre e. list_all P pre \<Longrightarrow> Q pre (Inl e)"
  shows "Q (fst (post_query_and_download w sid name tr)) (snd (post_query_and_download w sid name tr))"
  unfolding post_query_and_download_def after_submission_def Let_def
  by (intro seq_outcome [where P = P and Q = Q] emits_request emits_emit emits_handle_challenge
        emits_resolve_progress_form emits_load_page pre fin app exc)

lemma locate_and_download_not_found:
  assumes "page_do w tr (WaitForSelector XLSX_SELECTOR 180000) \<noteq> None"
      and "\<forall>l. page_query w (tr @ [WaitForSelector XLSX_SELECTOR 180000]) (Evaluate XLSX_SCRIPT) \<noteq> Inr (Some l)"
  shows "locate_and_download w name tr
           = ([WaitForSelector XLSX_SELECTOR 180000, Evaluate XLSX_SCRIPT, Print (CouldNotFind name)],
              Inr False)"
  using assms
  by (auto simp add: prod_eq_iff locate_and_download_def find_link_def download_link_def run_simps
        split: option.splits sum.splits)

lemma download_link_files:
  "snd (download_link w name link tr) = Inr True
     \<longrightarrow> (\<exists>b. filter is_file_event (fst (download_link w name link tr))
                = [OpenWrite (outpath name), Write (outpath name) b])"
  by (simp add: download_link_def fetch_artifact_def Let_def run_simps
        split: option.splits sum.splits)

lemma post_query_and_download_files:
  "snd (post_query_and_download w sid name tr) = Inr True
     \<longrightarrow> (\<exists>b. filter is_file_event (fst (post_query_and_download w sid name tr))
                = [OpenWrite (outpath name), Write (outpath name) b])"
proof -
  let ?P = "\<lambda>e. \<not> is_file_event e"
  let ?Q = "\<lambda>evs r. r = Inr True
              \<longrightarrow> (\<exists>b. filter is_file_event evs = [OpenWrite (outpath name), Write (outpath name) b])"
  have app: "?Q (pre @ evs) r" if "list_all ?P pre" "?Q evs r" for pre evs and r :: "exn + bool"
    using that by (auto simp: list_all_iff filter_empty_conv)
  have fin: "?Q (fst (locate_and_download w name tr')) (snd (locate_and_download w name tr'))" for tr'
    unfolding locate_and_download_def
  proof (rule seq_outcome [where P = ?P and Q = ?Q])
    show "emits ?P (find_link w)"
      by (rule emits_find_link) simp_all
  qed (use app download_link_files in auto)
  show ?thesis
    by (rule post_query_and_download_outcome [where P = ?P and Q = ?Q]) (use app fin in auto)
qed












section \<open>The claims\<close>



text \<open>
  Claim C2, as stated: a 449 response whose body cannot be parsed, or has no follow-up
  field, makes the acquisition fail as "challenge unresolvable". The script has no such
  outcome: it goes on with the body of the 449 response. In \<open>html449_world\<close> that body
  renders to a page with the anchor, and the run ends with the file written.
\<close>

theorem unparsable_challenge_counterexample:
  "http html449_world []
     (Post SAS_URL (urlencode html449_world (job_data html449_world (JStr ''06''))) job_headers 60000)
     = Inr \<lparr> resp_status = 449, resp_body = html449_body \<rparr>
   \<and> json_loads html449_world html449_body = None
   \<and> snd (post_query_and_download html449_world (JStr ''06'') ''California'' []) = Inr True
   \<and> filter is_file_event (fst (post_query_and_download html449_world (JStr ''06'') ''California'' []))
       = [OpenWrite (''scraped'', ''California-dui-data.xlsx''),
          Write (''scraped'', ''California-dui-data.xlsx'') ''PK'']"
  by (simp add: html449_world_def html449_http_def calm_world_def post_query_and_download_def
        handle_challenge_def challenge_uri_def after_submission_def resolve_progress_form_def
        find_progress_form_def soup_find_def nodes_of_def load_page_def locate_and_download_def
        find_link_def download_link_def fetch_artifact_def outpath_def OUTDIR_def Let_def run_simps)

text \<open>
  Claim C2, amended. When the job submission is answered with status 449 and the body
  cannot be parsed as JSON, or is a JSON object with neither a \<^verbatim>\<open>uri\<close> nor a \<^verbatim>\<open>URI\<close> field,
  the run makes no re-authentication GET and no resubmission, and goes on with the body
  of that response as with the body of any other response: its calls and its outcome
  are those of lines 90 to 155 on that body.
\<close>

theorem unresolvable_challenge_falls_through:
  assumes "http w tr (Post SAS_URL (urlencode w (job_data w sid)) job_headers 60000) = Inr resp"
      and "resp_status resp = 449"
      and "json_loads w (resp_body resp) = None
           \<or> (\<exists>kv. json_loads w (resp_body resp) = Some (JObj kv)
                    \<and> map_of kv ''uri'' = None \<and> map_of kv ''URI'' = None)"
  shows "filter is_reauth_get (fst (post_query_and_download w sid name tr)) = []
         \<and> filter is_job_post (fst (post_query_and_download w sid name tr))
             = [Post SAS_URL (urlencode w (job_data w sid)) job_headers 60000]
         \<and> fst (post_query_and_download w sid name tr)
             = [Post SAS_URL (urlencode w (job_data w sid)) job_headers 60000,
                Print (DebugPost (length (resp_body resp)) name 449),
                Print (DebugPreviewPost (preview (resp_body resp)))]
               @ fst (after_submission w name (resp_body resp)
                        (tr @ [Post SAS_URL (urlencode w (job_data w sid)) job_headers 60000,
                               Print (DebugPost (length (resp_body resp)) name 449),
                               Print (DebugPreviewPost (preview (resp_body resp)))]))
         \<and> snd (post_query_and_download w sid name tr)
             = snd (after_submission w name (resp_body resp)
                        (tr @ [Post SAS_URL (urlencode w (job_data w sid)) job_headers 60000,
                               Print (DebugPost (length (resp_body resp)) name 449),
                               Print (DebugPreviewPost (preview (resp_body resp)))]))"
proof -
  from assms(3) have "challenge_uri w resp = JNull"
    by (auto simp: challenge_uri_def py_or_def dict_get_def)
  with assms(1,2) show ?thesis
    by (simp add: post_query_and_download_def handle_challenge_def Let_def run_simps
          after_submission_no_reauth after_submission_no_job_post)
qed

theorem unresolvable_challenge_falls_through_witness:
  "filter is_reauth_get (fst (post_query_and_download html449_world (JStr ''06'') ''California'' [])) = []
   \<and> length (filter is_job_post (fst (post_query_and_download html449_world (JStr ''06'') ''California'' []))) = 1"
proof -
  let ?resp = "\<lparr> resp_status = 449, resp_body = html449_body \<rparr>"
  have sent: "http html449_world []
          (Post SAS_URL (urlencode html449_world (job_data html449_world (JStr ''06''))) job_headers 60000)
          = Inr ?resp"
    by (simp add: html449_world_def html449_http_def)
  have status: "resp_status ?resp = 449"
    by simp
  have body: "json_loads html449_world (resp_body ?resp) = None
              \<or> (\<exists>kv. json_loads html449_world (resp_body ?resp) = Some (JObj kv)
                       \<and> map_of kv ''uri'' = None \<and> map_of kv ''URI'' = None)"
    by (simp add: html449_world_def calm_world_def)
  note run = unresolvable_challenge_falls_through [OF sent status body, of "''California''"]
  from run [THEN conjunct1] run [THEN conjunct2, THEN conjunct1] show ?thesis
    by simp
qed








text \<open>
  Claim C6. The one request that fetching a discovered link makes is a GET to the
  normalized address: base address followed by the link when the link starts with \<^verbatim>\<open>/\<close>,
  the link itself when it starts with \<^verbatim>\<open>http\<close>, and base address, \<^verbatim>\<open>/\<close> and the link
  otherwise.
\<close>

theorem artifact_address_normalized:
  "filter is_request (fst (fetch_artifact w name link tr)) = [Get (normalize_link link) nav_headers 120000]
   \<and> (startswith link ''/'' \<longrightarrow> normalize_link link = BASE @ link)
   \<and> (startswith link ''http'' \<longrightarrow> normalize_link link = link)
   \<and> (\<not> startswith link ''/'' \<and> \<not> startswith link ''http'' \<longrightarrow> normalize_link link = BASE @ ''/'' @ link)"
  using startswith_slash_not_http [of link]
  by (auto simp: fetch_artifact_requests normalize_link_def)

theorem artifact_address_normalized_witness:
  "filter is_request (fst (fetch_artifact calm_world ''California'' ''/files/files/ca.xlsx'' []))
     = [Get ''https://cdan.dot.gov/files/files/ca.xlsx'' nav_headers 120000]
   \<and> normalize_link ''https://cdan.dot.gov/files/files/ca.xlsx'' = ''https://cdan.dot.gov/files/files/ca.xlsx''
   \<and> normalize_link ''files/ca.xlsx'' = ''https://cdan.dot.gov/files/ca.xlsx''"
  using artifact_address_normalized [of calm_world "''California''" "''/files/files/ca.xlsx''" "[]"]
    artifact_address_normalized [of calm_world "''California''" "''https://cdan.dot.gov/files/files/ca.xlsx''" "[]"]
    artifact_address_normalized [of calm_world "''California''" "''files/ca.xlsx''" "[]"]
  by (simp add: startswith_def BASE_def)

text \<open>
  Claim C7. When the parsed response body holds no form tag whose name or id is
  ProgressForm, the form step makes no call at all and hands the body on unchanged:
  the next call of the run loads that very body into the page.
\<close>

theorem no_form_passes_body_through:
  assumes "\<forall>n \<in> set (nodes_of (html_parser w txt)).
             \<not> (tag_name n = Some ''form'' \<and> (attr n ''name'' = Some ''ProgressForm'' \<or> attr n ''id'' = Some ''ProgressForm''))"
  shows "resolve_progress_form w txt tr = ([], Inr txt)
         \<and> (\<exists>evs. fst (after_submission w name txt tr) = SetContent txt # evs)"
  using find_progress_form_None [OF assms]
  by (simp add: resolve_progress_form_def after_submission_def load_page_def run_simps
        split: option.splits sum.splits)

theorem no_form_passes_body_through_witness:
  "resolve_progress_form result_world result_page [] = ([], Inr result_page)
   \<and> (\<exists>evs. fst (after_submission result_world ''California'' result_page []) = SetContent result_page # evs)"
  using no_form_passes_body_through [of result_world result_page "[]" "''California''"]
  by (simp add: result_world_def result_parser_def calm_world_def nodes_of_def)

text \<open>
  Claim C8, as stated: when no qualifying anchor shows up within the polling deadline,
  the Target ends as not found, with no artifact GET and no file. After the wait has
  timed out the script queries the document once more, and goes on to download when
  that query finds an anchor, as in \<open>late_anchor_world\<close>.
\<close>

theorem late_anchor_counterexample:
  "page_do late_anchor_world [] (WaitForSelector XLSX_SELECTOR 180000) = Some (Raised ''TimeoutError'')
   \<and> locate_and_download late_anchor_world ''California'' []
       = ([WaitForSelector XLSX_SELECTOR 180000,
           Evaluate XLSX_SCRIPT,
           Get ''https://cdan.dot.gov/files/files/ca.xlsx'' nav_headers 120000,
           OpenWrite (''scraped'', ''California-dui-data.xlsx''),
           Write (''scraped'', ''California-dui-data.xlsx'') ''PK'',
           Print (Saved (''scraped'', ''California-dui-data.xlsx''))], Inr True)"
  by (simp add: prod_eq_iff late_anchor_world_def calm_world_def timeout_page_def locate_and_download_def
        find_link_def download_link_def fetch_artifact_def normalize_link_def startswith_def
        BASE_def outpath_def OUTDIR_def Let_def run_simps)

text \<open>
  Claim C8, amended. When the wait for the selector always runs into its timeout and the
  query made after it never finds an anchor (it returns null or raises), link
  resolution makes these two calls, prints "Could not find" and returns False; the whole
  run of the Target makes no artifact GET, touches no file and does not return True,
  and once it has reached the wait it returns False with "Could not find" as its last
  call.
\<close>

theorem link_not_found_ends_target:
  assumes "\<forall>h. page_do w h (WaitForSelector XLSX_SELECTOR 180000) \<noteq> None"
      and "\<forall>h l. page_query w h (Evaluate XLSX_SCRIPT) \<noteq> Inr (Some l)"
  shows "locate_and_download w name tr
           = ([WaitForSelector XLSX_SELECTOR 180000, Evaluate XLSX_SCRIPT, Print (CouldNotFind name)],
              Inr False)
         \<and> snd (post_query_and_download w sid name tr) \<noteq> Inr True
         \<and> filter is_artifact_get (fst (post_query_and_download w sid name tr)) = []
         \<and> filter is_file_event (fst (post_query_and_download w sid name tr)) = []
         \<and> (WaitForSelector XLSX_SELECTOR 180000 \<in> set (fst (post_query_and_download w sid name tr))
              \<longrightarrow> snd (post_query_and_download w sid name tr) = Inr False
                \<and> last (fst (post_query_and_download w sid name tr)) = Print (CouldNotFind name))"
proof -
  have nf: "locate_and_download w name tr'
           = ([WaitForSelector XLSX_SELECTOR 180000, Evaluate XLSX_SCRIPT, Print (CouldNotFind name)],
              Inr False)" for tr'
    using assms by (intro locate_and_download_not_found) simp_all
  let ?P = "\<lambda>e. \<not> is_file_event e \<and> \<not> is_artifact_get e \<and> e \<noteq> WaitForSelector XLSX_SELECTOR 180000"
  let ?Q = "\<lambda>evs r. r \<noteq> Inr True \<and> filter is_artifact_get evs = [] \<and> filter is_file_event evs = []
              \<and> (WaitForSelector XLSX_SELECTOR 180000 \<in> set evs
                   \<longrightarrow> r = Inr False \<and> last evs = Print (CouldNotFind name))"
  have "?Q (fst (post_query_and_download w sid name tr)) (snd (post_query_and_download w sid name tr))"
  proof (rule post_query_and_download_outcome [where P = ?P and Q = ?Q])
    fix tr'
    show "?Q (fst (locate_and_download w name tr')) (snd (locate_and_download w name tr'))"
      by (simp add: nf)
  next
    fix pre evs and r :: "exn + bool"
    assume "list_all ?P pre" and "?Q evs r"
    then show "?Q (pre @ evs) r"
      by (auto simp: list_all_iff filter_empty_conv last_append)
  next
    fix pre and e :: exn
    assume "list_all ?P pre"
    then show "?Q pre (Inl e)"
      by (auto simp: list_all_iff filter_empty_conv)
  qed simp_all
  with nf show ?thesis
    by simp
qed

theorem link_not_found_ends_target_witness:
  "snd (post_query_and_download no_anchor_world (JStr ''06'') ''California'' []) = Inr False
   \<and> last (fst (post_query_and_download no_anchor_world (JStr ''06'') ''California'' []))
       = Print (CouldNotFind ''California'')
   \<and> filter is_artifact_get (fst (post_query_and_download no_anchor_world (JStr ''06'') ''California'' [])) = []
   \<and> filter is_file_event (fst (post_query_and_download no_anchor_world (JStr ''06'') ''California'' [])) = []"
proof -
  have "WaitForSelector XLSX_SELECTOR 180000
          \<in> set (fst (post_query_and_download no_anchor_world (JStr ''06'') ''California'' []))"
    by (simp add: no_anchor_world_def calm_world_def timeout_page_def post_query_and_download_def
          handle_challenge_def after_submission_def resolve_progress_form_def
          find_progress_form_def soup_find_def nodes_of_def load_page_def locate_and_download_def
          find_link_def Let_def run_simps)
  with link_not_found_ends_target [of no_anchor_world "''California''" "[]" "JStr ''06''"]
  show ?thesis
    by (simp add: no_anchor_world_def calm_world_def timeout_page_def)
qed

text \<open>
  Claim C9. When the run for a Target with display name \<open>n\<close> returns True, the file calls
  of that Target are one open and one write of the same file: the one in the output
  directory named \<open>n\<close> with every \<^verbatim>\<open>/\<close> replaced by \<^verbatim>\<open>-\<close>, followed by \<^verbatim>\<open>-dui-data.xlsx\<close>.
  That name holds no \<^verbatim>\<open>/\<close>.
\<close>

theorem one_file_per_completed_target:
  assumes "s = JObj kv" and "map_of kv ''StateName'' = Some (JStr n)"
      and "snd (post_query_and_download w (dict_get kv ''Id'')
                  (map (\<lambda>c. if c = CHR ''/'' then CHR ''-'' else c) n)
                  (tr @ [Print (Processing (format_value w (dict_get kv ''Id''))
                                  (map (\<lambda>c. if c = CHR ''/'' then CHR ''-'' else c) n))])) = Inr True"
  shows "(\<exists>b. filter is_file_event (fst (process_state w s tr))
               = [OpenWrite (OUTDIR, map (\<lambda>c. if c = CHR ''/'' then CHR ''-'' else c) n @ ''-dui-data.xlsx''),
                  Write (OUTDIR, map (\<lambda>c. if c = CHR ''/'' then CHR ''-'' else c) n @ ''-dui-data.xlsx'') b])
         \<and> CHR ''/'' \<notin> set (map (\<lambda>c. if c = CHR ''/'' then CHR ''-'' else c) n @ ''-dui-data.xlsx'')"
proof -
  let ?name = "map (\<lambda>c. if c = CHR ''/'' then CHR ''-'' else c) n"
  let ?sid = "dict_get kv ''Id''"
  let ?tr = "tr @ [Print (Processing (format_value w ?sid) ?name)]"
  from post_query_and_download_files [of w ?sid ?name ?tr] assms(3)
  obtain b where "filter is_file_event (fst (post_query_and_download w ?sid ?name ?tr))
                    = [OpenWrite (outpath ?name), Write (outpath ?name) b]"
    by auto
  with assms have "\<exists>b. filter is_file_event (fst (process_state w s tr))
               = [OpenWrite (OUTDIR, ?name @ ''-dui-data.xlsx''), Write (OUTDIR, ?name @ ''-dui-data.xlsx'') b]"
    by (simp add: process_state_def state_id_def state_name_def sanitize_def run_simps outpath_def)
  moreover have "CHR ''/'' \<notin> set (?name @ ''-dui-data.xlsx'')"
    by auto
  ultimately show ?thesis
    by simp
qed

theorem one_file_per_completed_target_witness:
  "filter is_file_event (fst (process_state calm_world california []))
     = [OpenWrite (''scraped'', ''California-dui-data.xlsx''),
        Write (''scraped'', ''California-dui-data.xlsx'') ''PK'']"
proof -
  have run: "snd (post_query_and_download calm_world (JStr ''06'') ''California''
                 [Print (Processing ''06'' ''California'')]) = Inr True"
    by (simp add: calm_world_def post_query_and_download_def
          handle_challenge_def after_submission_def resolve_progress_form_def
          find_progress_form_def soup_find_def nodes_of_def load_page_def locate_and_download_def
          find_link_def download_link_def fetch_artifact_def Let_def run_simps)
  have "filter is_file_event (fst (process_state calm_world california []))
          = [OpenWrite (outpath ''California''), Write (outpath ''California'') (resp_body \<lparr> resp_status = 200, resp_body = ''PK'' \<rparr>)]"
    by (simp add: california_def calm_world_def process_state_def state_id_def state_name_def
          sanitize_def dict_get_def post_query_and_download_def
          handle_challenge_def after_submission_def resolve_progress_form_def
          find_progress_form_def soup_find_def nodes_of_def load_page_def locate_and_download_def
          find_link_def download_link_def fetch_artifact_def Let_def run_simps)
  with one_file_per_completed_target [of california "[(''Id'', JStr ''06''), (''StateName'', JStr ''California'')]"
         "''California''" calm_world "[]"] run
  show ?thesis
    by (simp add: california_def dict_get_def calm_world_def plain_str_def OUTDIR_def outpath_def)
qed

text \<open>
  Claim C10. When the ProgressForm has no action attribute, or an empty one, the one
  request of the form step is a POST to \<open>SAS_URL\<close>, the address the run's first call, the
  job submission, goes to.
\<close>

theorem form_without_action_posts_to_job_endpoint:
  assumes "find_progress_form (html_parser w txt) = Some form"
      and "attr form ''action'' = None \<or> attr form ''action'' = Some []"
  shows "filter is_request (fst (resolve_progress_form w txt tr))
           = [Post SAS_URL (urlencode w (form_inputs form)) form_headers 60000]
         \<and> (\<exists>evs. fst (post_query_and_download w sid name tr')
                     = Post SAS_URL (urlencode w (job_data w sid)) job_headers 60000 # evs)"
proof -
  have "\<not> startswith SAS_URL ''/''"
    by (simp add: SAS_URL_def startswith_def)
  with assms(2) have "form_action form = SAS_URL"
    by (auto simp: form_action_def)
  with resolve_progress_form_requests [OF assms(1)] post_query_first_event show ?thesis
    by simp
qed

theorem form_without_action_posts_to_job_endpoint_witness:
  "filter is_request (fst (resolve_progress_form form_world plain_page []))
     = [Post ''https://cdan.dot.gov/SASJobExecution/?sso_guest=true'' ''_sessionid=abc&note='' form_headers 60000]"
  using form_without_action_posts_to_job_endpoint [of form_world plain_page plain_form "[]"]
  by (simp add: form_world_def form_http_def form_parser_def calm_world_def
        plain_page_def plain_form_def find_progress_form_def soup_find_def nodes_of_def
        find_all_def plain_urlencode_def form_inputs_def SAS_URL_def)

end
